theory Spec2Isabelle
  imports Main
begin

section \<open>Values and errors\<close>

text \<open>
  The attributes of the models hold Python values. The ones that occur here are
  \<^verbatim>\<open>None\<close>, booleans, integers and strings; \<open>truthy\<close> is Python's truth test on them.
\<close>

datatype py_value = PyNone | PyBool bool | PyInt int | PyStr string

fun truthy :: "py_value \<Rightarrow> bool" where
  "truthy PyNone = False"
| "truthy (PyBool b) = b"
| "truthy (PyInt i) = (i \<noteq> 0)"
| "truthy (PyStr s) = (s \<noteq> [])"

text \<open>
  The exceptions raised in \<^verbatim>\<open>features/models.py\<close>, each with its message.
  \<open>IntegrityError\<close> is what the store raises when a declared constraint is violated; it
  carries the name of the constraint.
\<close>

datatype error = ValueError string | ValidationError string | IntegrityError string

section \<open>The models\<close>

text \<open>
  \<^verbatim>\<open>class Feature(models.Model)\<close>. The primary key is \<open>None\<close> until the row is
  written. \<open>project\<close> is the primary key of the owning project.
\<close>

record feature =
  feature_pk :: "nat option"
  name :: string
  project :: nat
  initial_value :: py_value
  default_enabled :: bool

text \<open>
  \<^verbatim>\<open>class FeatureSegment(OrderedModelBase)\<close>; \<open>priority\<close> is a
  \<^verbatim>\<open>PositiveIntegerField\<close>.
\<close>

record feature_segment =
  segment_pk :: "nat option"
  segment_feature :: feature
  segment :: nat
  segment_environment :: nat
  priority :: nat

text \<open>
  \<^verbatim>\<open>class FeatureState(models.Model)\<close>. \<open>environment\<close> and \<open>identity\<close> are
  nullable foreign keys to models of other applications and are held as the primary key of
  the row they point to; \<open>feature\<close> and \<open>feature_segment\<close> are held as the related
  objects, since the code reads their attributes.
\<close>

record feature_state =
  pk :: "nat option"
  feature :: feature
  environment :: "nat option"
  identity :: "nat option"
  feature_segment :: "feature_segment option"
  enabled :: bool

text \<open>
  Django's \<^verbatim>\<open>Model.__eq__\<close>: two instances of a model are equal when their primary
  keys are; an instance that has no primary key yet is equal to itself only. Values stand
  for instances here, so "the same instance" is "the same value".
\<close>

definition feature_eq :: "feature \<Rightarrow> feature \<Rightarrow> bool" where
  "feature_eq a b =
     (case feature_pk a of None \<Rightarrow> a = b | Some k \<Rightarrow> feature_pk b = Some k)"

section \<open>Precedence of feature states\<close>

text \<open>
  \<^verbatim>\<open>FeatureSegment.__lt__\<close>:
  \<^verbatim>\<open>return other and self.priority > other.priority\<close>.
  Python's \<^verbatim>\<open>and\<close> returns \<^verbatim>\<open>other\<close> itself when it is \<^verbatim>\<open>None\<close>, and the comparison
  otherwise (a model instance is always truthy).
\<close>

definition segment_lt :: "feature_segment \<Rightarrow> feature_segment option \<Rightarrow> py_value" where
  "segment_lt self other =
     (case other of
        None \<Rightarrow> PyNone
      | Some s \<Rightarrow> PyBool (priority self > priority s))"

text \<open>
  \<^verbatim>\<open>FeatureState.__gt__\<close>, branch by branch. A raise is \<open>Inl\<close>.
\<close>

definition gt :: "feature_state \<Rightarrow> feature_state \<Rightarrow> error + bool" where
  "gt self other =
     (if environment self \<noteq> environment other then
        Inl (ValueError
          ''Cannot compare feature states as they belong to different environments.'')
      else if \<not> feature_eq (feature self) (feature other) then
        Inl (ValueError
          ''Cannot compare feature states as they belong to different features.'')
      else if identity self \<noteq> None then
        (if identity other \<noteq> None \<and> identity self \<noteq> identity other then
           Inl (ValueError
             ''Cannot compare feature states as they are for different identities.'')
         else Inr True)
      else
        (case feature_segment self of
           Some seg \<Rightarrow>
             Inr (\<not> (identity other \<noteq> None \<or> truthy (segment_lt seg (feature_segment other))))
         | None \<Rightarrow>
             Inr (\<not> (feature_segment other \<noteq> None \<or> identity other \<noteq> None))))"

text \<open>
  The reference definition of the specification, in its own words: the three failure
  conditions first, then the identity override, the segment override and the default.
  Its one error is \<open>IncomparableError\<close>.
\<close>

datatype spec_error = IncomparableError | DuplicateDefaultError | DuplicateNameError

definition segment_outranks :: "feature_segment \<Rightarrow> feature_segment \<Rightarrow> bool" where
  "segment_outranks a b = (priority a < priority b)"

definition outranks_spec :: "feature_state \<Rightarrow> feature_state \<Rightarrow> spec_error + bool" where
  "outranks_spec a b =
     (if environment a \<noteq> environment b \<or> \<not> feature_eq (feature a) (feature b)
         \<or> (identity a \<noteq> None \<and> identity b \<noteq> None \<and> identity a \<noteq> identity b)
      then Inl IncomparableError
      else if identity a \<noteq> None then Inr True
      else
        (case feature_segment a of
           Some sa \<Rightarrow>
             Inr (identity b = None \<and>
                  (case feature_segment b of
                     None \<Rightarrow> True
                   | Some sb \<Rightarrow> \<not> segment_outranks sb sa))
         | None \<Rightarrow> Inr (feature_segment b = None \<and> identity b = None)))"

section \<open>Priorities of segment overrides\<close>

text \<open>
  \<^verbatim>\<open>filter(feature=feature)\<close> compares the foreign-key column of a row with the primary
  key of the instance given; an instance that has none matches no row.
\<close>

definition refers_to :: "feature \<Rightarrow> feature \<Rightarrow> bool" where
  "refers_to row_feature f = (feature_pk f \<noteq> None \<and> feature_pk row_feature = feature_pk f)"





section \<open>Typed values\<close>

text \<open>
  Modelled from the spec: the constants \<^verbatim>\<open>INTEGER\<close>, \<^verbatim>\<open>STRING\<close> and \<^verbatim>\<open>BOOLEAN\<close> of
  \<^verbatim>\<open>features.value_types\<close> are imported by the module and defined elsewhere. The
  specification has a type tag among integer, string and boolean, so they are three
  different tags; the tags are strings, and \<open>OtherType\<close> is any other string.
\<close>

datatype value_type = INTEGER | STRING | BOOLEAN | OtherType string

text \<open>
  \<^verbatim>\<open>class FeatureStateValue(models.Model)\<close>, one row for a feature state at most
  (\<^verbatim>\<open>OneToOneField\<close>); \<open>fsv_feature_state\<close> is the primary key of its feature state, as
  the instance holds it, and \<open>fsv_type\<close> the nullable field \<^verbatim>\<open>type\<close>.
\<close>

record feature_state_value =
  fsv_feature_state :: "nat option"
  fsv_type :: "value_type option"
  boolean_value :: py_value
  integer_value :: py_value
  string_value :: py_value

text \<open>
  \<^verbatim>\<open>FeatureState.get_feature_state_value\<close>: \<^verbatim>\<open>None\<close> when the feature state has no
  value row (\<^verbatim>\<open>ObjectDoesNotExist\<close>), and \<^verbatim>\<open>type_mapping.get(value_type)\<close> otherwise.
\<close>

definition get_feature_state_value :: "feature_state_value list \<Rightarrow> feature_state \<Rightarrow> py_value" where
  "get_feature_state_value table self =
     (case find (\<lambda>v. pk self \<noteq> None \<and> fsv_feature_state v = pk self) table of
        None \<Rightarrow> PyNone
      | Some v \<Rightarrow>
          (case fsv_type v of
             Some INTEGER \<Rightarrow> integer_value v
           | Some STRING \<Rightarrow> string_value v
           | Some BOOLEAN \<Rightarrow> boolean_value v
           | _ \<Rightarrow> PyNone))"

text \<open>
  \<^verbatim>\<open>FeatureState.get_feature_state_key_name\<close>: a dictionary lookup with the default
  \<^verbatim>\<open>"string_value"\<close>.
\<close>

fun get_feature_state_key_name :: "value_type \<Rightarrow> string" where
  "get_feature_state_key_name INTEGER = ''integer_value''"
| "get_feature_state_key_name BOOLEAN = ''boolean_value''"
| "get_feature_state_key_name STRING = ''string_value''"
| "get_feature_state_key_name (OtherType t) = ''string_value''"

text \<open>
  The helpers of \<^verbatim>\<open>features.utils\<close> are imported by the module and defined elsewhere; the
  functions that call them take them as a parameter.
\<close>

record utils =
  get_value_type :: "py_value \<Rightarrow> value_type"
  get_boolean_from_string :: "py_value \<Rightarrow> bool"
  get_integer_from_string :: "py_value \<Rightarrow> int"

text \<open>
  The dictionary \<^verbatim>\<open>_get_feature_state_defaults\<close> returns has two entries: \<^verbatim>\<open>"type"\<close> and
  the entry whose key \<^verbatim>\<open>get_feature_state_key_name\<close> chose.
\<close>

record seed =
  seed_type :: value_type
  seed_key :: string
  seed_value :: py_value

text \<open>
  \<^verbatim>\<open>FeatureState._get_feature_state_defaults\<close>. The guard is
  \<^verbatim>\<open>not (initial_value or initial_value is False)\<close>.
\<close>

definition get_feature_state_defaults :: "utils \<Rightarrow> feature_state \<Rightarrow> seed option" where
  "get_feature_state_defaults u self =
     (if \<not> (truthy (initial_value (feature self))
             \<or> initial_value (feature self) = PyBool False)
      then None
      else
        (let v = initial_value (feature self);
             t = get_value_type u v;
             key_name = get_feature_state_key_name t
         in Some \<lparr>seed_type = t, seed_key = key_name,
                  seed_value =
                    (if t = BOOLEAN then PyBool (get_boolean_from_string u v)
                     else if t = INTEGER then PyInt (get_integer_from_string u v)
                     else v)\<rparr>))"

section \<open>Saving a feature state\<close>

text \<open>
  The store: the table of feature states, the table of their values, and the calls made
  to \<^verbatim>\<open>trigger_feature_state_change_webhooks\<close>, in order.
\<close>

record store =
  feature_states :: "feature_state list"
  feature_state_values :: "feature_state_value list"
  webhook_calls :: "feature_state list"

text \<open>
  The three constraints of \<^verbatim>\<open>FeatureState.Meta\<close>, each as the collision of a stored row
  with the row being written. A column that is \<^verbatim>\<open>NULL\<close> never collides.
\<close>

definition same_column :: "'a option \<Rightarrow> 'a option \<Rightarrow> bool" where
  "same_column x y = (x \<noteq> None \<and> x = y)"

definition same_scope :: "feature_state \<Rightarrow> feature_state \<Rightarrow> bool" where
  "same_scope r s =
     (same_column (environment r) (environment s)
      \<and> same_column (feature_pk (feature r)) (feature_pk (feature s)))"

definition segment_column :: "feature_state \<Rightarrow> nat option" where
  "segment_column r = Option.bind (feature_segment r) segment_pk"

definition unique_for_feature_segment :: "feature_state \<Rightarrow> feature_state \<Rightarrow> bool" where
  "unique_for_feature_segment r s =
     (identity r = None \<and> identity s = None \<and> same_scope r s
      \<and> same_column (segment_column r) (segment_column s))"

definition unique_for_identity :: "feature_state \<Rightarrow> feature_state \<Rightarrow> bool" where
  "unique_for_identity r s =
     (feature_segment r = None \<and> feature_segment s = None \<and> same_scope r s
      \<and> same_column (identity r) (identity s))"

definition unique_for_environment :: "feature_state \<Rightarrow> feature_state \<Rightarrow> bool" where
  "unique_for_environment r s =
     (identity r = None \<and> feature_segment r = None
      \<and> identity s = None \<and> feature_segment s = None \<and> same_scope r s)"

definition next_pk :: "feature_state list \<Rightarrow> nat" where
  "next_pk rows = Suc (fold max (map (\<lambda>r. case pk r of None \<Rightarrow> 0 | Some k \<Rightarrow> k) rows) 0)"

text \<open>
  \<^verbatim>\<open>super(FeatureState, self).save()\<close>, Django's \<^verbatim>\<open>Model.save\<close>: the constraints are
  checked against the other rows; an instance with no primary key is inserted under a fresh
  one; an instance with a primary key replaces the row that has it, and is inserted when
  there is none. The instance is returned with its primary key.
\<close>

definition model_save :: "store \<Rightarrow> feature_state \<Rightarrow> error + store \<times> feature_state" where
  "model_save st s =
     (let rows = feature_states st;
          others = filter (\<lambda>r. pk s = None \<or> pk r \<noteq> pk s) rows
      in if list_ex (\<lambda>r. unique_for_feature_segment r s) others then
           Inl (IntegrityError ''unique_for_feature_segment'')
         else if list_ex (\<lambda>r. unique_for_identity r s) others then
           Inl (IntegrityError ''unique_for_identity'')
         else if list_ex (\<lambda>r. unique_for_environment r s) others then
           Inl (IntegrityError ''unique_for_environment'')
         else
           (case pk s of
              None \<Rightarrow>
                (let s' = s\<lparr>pk := Some (next_pk rows)\<rparr>
                 in Inr (st\<lparr>feature_states := rows @ [s']\<rparr>, s'))
            | Some k \<Rightarrow>
                (if list_ex (\<lambda>r. pk r = Some k) rows then
                   Inr (st\<lparr>feature_states := map (\<lambda>r. if pk r = Some k then s else r) rows\<rparr>, s)
                 else Inr (st\<lparr>feature_states := rows @ [s]\<rparr>, s))))"

text \<open>
  \<^verbatim>\<open>FeatureStateValue.objects.get_or_create(feature_state=self, defaults=...)\<close>: nothing
  when the feature state has a value row; otherwise a row from the defaults, and with no
  defaults a row of the field defaults (type \<^verbatim>\<open>STRING\<close>, every slot null).
\<close>

definition create_value :: "nat option \<Rightarrow> seed option \<Rightarrow> feature_state_value" where
  "create_value k defaults =
     (let blank = \<lparr>fsv_feature_state = k, fsv_type = Some STRING, boolean_value = PyNone,
                   integer_value = PyNone, string_value = PyNone\<rparr>
      in case defaults of
           None \<Rightarrow> blank
         | Some d \<Rightarrow>
             (let typed = blank\<lparr>fsv_type := Some (seed_type d)\<rparr>
              in if seed_key d = ''integer_value'' then typed\<lparr>integer_value := seed_value d\<rparr>
                 else if seed_key d = ''boolean_value'' then typed\<lparr>boolean_value := seed_value d\<rparr>
                 else typed\<lparr>string_value := seed_value d\<rparr>))"

definition get_or_create ::
  "feature_state_value list \<Rightarrow> nat option \<Rightarrow> seed option \<Rightarrow> feature_state_value list" where
  "get_or_create table k defaults =
     (if list_ex (\<lambda>v. fsv_feature_state v = k) table then table
      else table @ [create_value k defaults])"

text \<open>
  \<^verbatim>\<open>FeatureState.save\<close>. \<^verbatim>\<open>not self.pk\<close> holds for no primary key and for the primary
  key 0; \<^verbatim>\<open>self.identity or self.feature_segment\<close> is the truth test of two related
  objects.
\<close>

definition save :: "utils \<Rightarrow> store \<Rightarrow> feature_state \<Rightarrow> error + store \<times> feature_state" where
  "save u st self =
     (if (pk self = None \<or> pk self = Some 0)
         \<and> list_ex (\<lambda>r. environment r = environment self
                         \<and> refers_to (feature r) (feature self)) (feature_states st)
         \<and> \<not> (identity self \<noteq> None \<or> feature_segment self \<noteq> None)
      then Inl (ValidationError
             ''Feature state already exists for this environment and feature'')
      else
        (case model_save st self of
           Inl e \<Rightarrow> Inl e
         | Inr (st1, self1) \<Rightarrow>
             (let st2 = st1\<lparr>feature_state_values :=
                          get_or_create (feature_state_values st1) (pk self1)
                            (get_feature_state_defaults u self1)\<rparr>;
                  st3 = st2\<lparr>webhook_calls := webhook_calls st2 @ [self1]\<rparr>
              in Inr (st3, self1))))"

section \<open>Names of features\<close>






section \<open>User data for the analytics integration\<close>

text \<open>
  \<^verbatim>\<open>class HeapWrapper\<close> of \<^verbatim>\<open>integrations/heap/heap.py\<close> and the dictionary
  \<^verbatim>\<open>generate_user_data\<close> returns.
\<close>

record heap_wrapper =
  api_key :: string
  url :: string

record user_data =
  app_id :: string
  user_identity :: string
  event :: string
  properties :: "string \<rightharpoonup> py_value"

text \<open>The loop over the feature states, which assigns one key of the dictionary each time.\<close>

fun feature_properties ::
  "feature_state_value list \<Rightarrow> feature_state list \<Rightarrow> (string \<rightharpoonup> py_value) \<Rightarrow> (string \<rightharpoonup> py_value)"
where
  "feature_properties table [] props = props"
| "feature_properties table (feature_state # rest) props =
     (let v = get_feature_state_value table feature_state
      in feature_properties table rest
           (props(name (feature feature_state) \<mapsto>
              (if enabled feature_state \<and> truthy v then v
               else PyBool (enabled feature_state)))))"

definition generate_user_data ::
  "heap_wrapper \<Rightarrow> feature_state_value list \<Rightarrow> string \<Rightarrow> feature_state list \<Rightarrow> user_data" where
  "generate_user_data self table user_id feature_states_arg =
     \<lparr>app_id = api_key self, user_identity = user_id, event = ''Flagsmith Feature Flags'',
      properties = feature_properties table feature_states_arg Map.empty\<rparr>"

section \<open>Example data\<close>

definition flag :: feature where
  "flag = \<lparr>feature_pk = Some 1, name = ''Flag'', project = 1,
           initial_value = PyNone, default_enabled = False\<rparr>"

definition seg :: "nat \<Rightarrow> nat \<Rightarrow> nat \<Rightarrow> feature_segment" where
  "seg k s p = \<lparr>segment_pk = Some k, segment_feature = flag, segment = s,
                segment_environment = 1, priority = p\<rparr>"

definition env_default :: feature_state where
  "env_default = \<lparr>pk = Some 1, feature = flag, environment = Some 1, identity = None,
                  feature_segment = None, enabled = False\<rparr>"

definition segment_override :: "nat \<Rightarrow> feature_segment \<Rightarrow> feature_state" where
  "segment_override k s = \<lparr>pk = Some k, feature = flag, environment = Some 1,
                           identity = None, feature_segment = Some s, enabled = True\<rparr>"

definition identity_override :: "nat \<Rightarrow> nat \<Rightarrow> feature_state" where
  "identity_override k i = \<lparr>pk = Some k, feature = flag, environment = Some 1,
                            identity = Some i, feature_segment = None, enabled = True\<rparr>"

text \<open>Helpers that read every value as a string, for the examples.\<close>

definition string_utils :: utils where
  "string_utils = \<lparr>get_value_type = (\<lambda>v. STRING), get_boolean_from_string = (\<lambda>v. False),
                     get_integer_from_string = (\<lambda>v. 0)\<rparr>"

definition store_of :: "feature_state list \<Rightarrow> store" where
  "store_of rows = \<lparr>feature_states = rows, feature_state_values = [], webhook_calls = []\<rparr>"

definition new_default :: "nat \<Rightarrow> feature_state" where
  "new_default env = \<lparr>pk = None, feature = flag, environment = Some env, identity = None,
                      feature_segment = None, enabled = False\<rparr>"

text \<open>
  The level of precedence of a feature state: an identity override, a segment override
  with its priority, or the default of the environment.
\<close>

datatype level = IdentityLevel | SegmentLevel nat | DefaultLevel

definition level :: "feature_state \<Rightarrow> level" where
  "level s =
     (if identity s \<noteq> None then IdentityLevel
      else case feature_segment s of
             Some x \<Rightarrow> SegmentLevel (priority x)
           | None \<Rightarrow> DefaultLevel)"

definition heap_example :: heap_wrapper where
  "heap_example = \<lparr>api_key = ''key'', url = ''https://heapanalytics.com/api/track''\<rparr>"

definition value_rows :: "feature_state_value list" where
  "value_rows = [\<lparr>fsv_feature_state = Some 2, fsv_type = Some INTEGER, boolean_value = PyNone,
                   integer_value = PyInt 42, string_value = PyNone\<rparr>]"

section \<open>The comparison against its reference definition\<close>

lemma feature_eq_refl: "feature_eq a a"
  by (simp add: feature_eq_def split: option.split)

lemma feature_eq_sym: "feature_eq a b = feature_eq b a"
  by (auto simp: feature_eq_def split: option.split)

lemma feature_eq_flag: "feature_eq flag flag"
  by (rule feature_eq_refl)

text \<open>
  Claim C1. For every pair of feature states, the comparison of the code agrees with the
  four-step reference definition: it fails exactly when the reference fails (the code's
  error is a \<open>ValueError\<close>, the reference's is \<open>IncomparableError\<close>), and it returns the
  same truth value otherwise.
\<close>

theorem gt_refines_outranks_spec:
  "map_sum (\<lambda>e. IncomparableError) id (gt a b) = outranks_spec a b"
  by (simp add: gt_def outranks_spec_def segment_lt_def segment_outranks_def not_less
      split: option.split)

theorem gt_refines_outranks_spec_witness:
  "map_sum (\<lambda>e. IncomparableError) id (gt (segment_override 2 (seg 1 1 1)) env_default)
     = outranks_spec (segment_override 2 (seg 1 1 1)) env_default
   \<and> gt (segment_override 2 (seg 1 1 1)) env_default = Inr True"
  using gt_refines_outranks_spec [of "segment_override 2 (seg 1 1 1)" env_default]
  by (simp add: gt_def segment_override_def env_default_def feature_eq_flag segment_lt_def)

section \<open>The comparison of segment overrides\<close>

text \<open>
  Claim C2. For two segment-override feature states of one (feature, environment) scope,
  the comparison of their segment overrides ranks the numerically smaller priority first:
  the override of \<open>a\<close> outranks the override of \<open>b\<close>, that is
  \<^verbatim>\<open>b.feature_segment < a.feature_segment\<close> holds, exactly when the priority of \<open>a\<close> is
  smaller. \<^verbatim>\<open>FeatureState.__gt__\<close> negates that comparison, so the state with the smaller
  priority outranks the other and is not outranked by it; with priorities 1 and 2 the
  override of priority 1 wins.
\<close>

theorem segment_comparison_by_priority:
  assumes "feature_segment a = Some sa" and "feature_segment b = Some sb"
    and "identity a = None" and "identity b = None"
    and "environment a = environment b" and "feature_eq (feature a) (feature b)"
  shows "truthy (segment_lt sb (Some sa)) = (priority sa < priority sb)
       \<and> gt a b = Inr (\<not> truthy (segment_lt sa (Some sb)))
       \<and> (priority sa < priority sb \<longrightarrow> gt a b = Inr True \<and> gt b a = Inr False)"
  using assms by (auto simp: gt_def segment_lt_def feature_eq_sym)

theorem segment_comparison_by_priority_witness:
  "truthy (segment_lt (seg 2 2 2) (Some (seg 1 1 1)))
   \<and> gt (segment_override 2 (seg 1 1 1)) (segment_override 3 (seg 2 2 2)) = Inr True
   \<and> gt (segment_override 3 (seg 2 2 2)) (segment_override 2 (seg 1 1 1)) = Inr False"
  using segment_comparison_by_priority
    [of "segment_override 2 (seg 1 1 1)" "seg 1 1 1" "segment_override 3 (seg 2 2 2)" "seg 2 2 2"]
  by (simp add: segment_override_def seg_def feature_eq_flag gt_def segment_lt_def)

section \<open>The next priority\<close>






lemma refers_flag: "refers_to flag flag"
  by (simp add: refers_to_def flag_def)




section \<open>Order properties of the comparison\<close>

text \<open>
  Claim C4, as the code has it. The default of an environment never outranks a feature
  state that has an identity or a segment override. When \<open>a\<close> outranks \<open>b\<close>, then \<open>b\<close>
  outranks \<open>a\<close> as well exactly when the two are on the same level of precedence (two
  overrides of one identity, two segment overrides of equal priority, two defaults), and
  \<open>b\<close> does not outrank \<open>a\<close> exactly when their levels differ.
\<close>

theorem outranks_default_and_antisymmetry:
  "(identity a = None \<and> feature_segment a = None
      \<and> (identity b \<noteq> None \<or> feature_segment b \<noteq> None) \<longrightarrow> gt a b \<noteq> Inr True)
   \<and> (gt a b = Inr True \<longrightarrow>
        (gt b a = Inr True) = (level a = level b)
        \<and> (gt b a = Inr False) = (level a \<noteq> level b))"
proof (rule conjI)
  show "identity a = None \<and> feature_segment a = None
          \<and> (identity b \<noteq> None \<or> feature_segment b \<noteq> None) \<longrightarrow> gt a b \<noteq> Inr True"
    by (auto simp: gt_def)
next
  show "gt a b = Inr True \<longrightarrow>
          (gt b a = Inr True) = (level a = level b)
          \<and> (gt b a = Inr False) = (level a \<noteq> level b)"
  proof
    assume ab: "gt a b = Inr True"
    then have scope: "environment a = environment b" "feature_eq (feature b) (feature a)"
      by (auto simp: gt_def feature_eq_sym split: if_splits)
    show "(gt b a = Inr True) = (level a = level b)
          \<and> (gt b a = Inr False) = (level a \<noteq> level b)"
    proof (cases "identity a")
      case (Some i)
      then show ?thesis using ab scope
        by (auto simp: gt_def level_def segment_lt_def split: option.splits if_splits)
    next
      case None
      then show ?thesis using ab scope
        by (cases "feature_segment a")
           (auto simp: gt_def level_def segment_lt_def split: option.splits if_splits)
    qed
  qed
qed

theorem outranks_default_and_antisymmetry_witness:
  "gt env_default (segment_override 2 (seg 1 1 1)) \<noteq> Inr True
   \<and> gt (segment_override 2 (seg 1 1 1)) env_default = Inr True
   \<and> level (segment_override 2 (seg 1 1 1)) \<noteq> level env_default
   \<and> gt env_default (segment_override 2 (seg 1 1 1)) = Inr False"
  using outranks_default_and_antisymmetry [of env_default "segment_override 2 (seg 1 1 1)"]
    outranks_default_and_antisymmetry [of "segment_override 2 (seg 1 1 1)" env_default]
  by (simp add: gt_def segment_override_def env_default_def seg_def feature_eq_flag
        segment_lt_def level_def)

text \<open>
  Two different segment overrides of equal priority outrank each other; an identity
  override and the default of an environment each outrank themselves.
\<close>

theorem outranks_tie_both_ways:
  "gt (segment_override 2 (seg 1 1 1)) (segment_override 3 (seg 2 2 1)) = Inr True
   \<and> gt (segment_override 3 (seg 2 2 1)) (segment_override 2 (seg 1 1 1)) = Inr True
   \<and> segment_override 2 (seg 1 1 1) \<noteq> segment_override 3 (seg 2 2 1)
   \<and> gt (identity_override 2 7) (identity_override 2 7) = Inr True
   \<and> gt env_default env_default = Inr True"
  by (simp add: gt_def segment_override_def identity_override_def env_default_def seg_def
        feature_eq_flag segment_lt_def)

section \<open>Saving a feature state\<close>

lemma save_precheck:
  assumes "pk s = None \<or> pk s = Some 0" and "identity s = None" and "feature_segment s = None"
    and "r \<in> set (feature_states st)" and "environment r = environment s"
    and "refers_to (feature r) (feature s)"
  shows "save u st s =
           Inl (ValidationError ''Feature state already exists for this environment and feature'')"
proof -
  have "list_ex (\<lambda>r. environment r = environment s \<and> refers_to (feature r) (feature s))
          (feature_states st)"
    using assms(4-6) by (auto simp: list_ex_iff)
  then show ?thesis using assms(1-3) by (simp add: save_def)
qed


lemma model_save_result:
  "model_save st s = Inr (st1, s1) \<Longrightarrow>
     pk s1 \<noteq> None \<and> s1 \<in> set (feature_states st1) \<and> webhook_calls st1 = webhook_calls st
     \<and> (pk s \<noteq> None \<longrightarrow> s1 = s)"
  by (auto simp: model_save_def Let_def list_ex_iff split: if_splits option.splits)



text \<open>
  Claim C10. For a feature state that is being created (its primary key is not set) with
  no identity and no segment override, the duplicate check of \<^verbatim>\<open>save\<close> raises its
  validation error as soon as any row at all is stored for the same environment and
  feature, be it an identity override or a segment override.
\<close>

theorem save_precheck_any_row:
  assumes "pk s = None \<or> pk s = Some 0" and "identity s = None" and "feature_segment s = None"
    and "r \<in> set (feature_states st)" and "environment r = environment s"
    and "refers_to (feature r) (feature s)"
  shows "save u st s =
           Inl (ValidationError ''Feature state already exists for this environment and feature'')"
  using assms by (rule save_precheck)

theorem save_precheck_any_row_witness:
  "save string_utils (store_of [identity_override 2 7]) (new_default 1) =
     Inl (ValidationError ''Feature state already exists for this environment and feature'')
   \<and> save string_utils (store_of [segment_override 3 (seg 1 1 1)]) (new_default 1) =
     Inl (ValidationError ''Feature state already exists for this environment and feature'')"
  using save_precheck_any_row [of "new_default 1" "identity_override 2 7"
          "store_of [identity_override 2 7]" string_utils]
    save_precheck_any_row [of "new_default 1" "segment_override 3 (seg 1 1 1)"
          "store_of [segment_override 3 (seg 1 1 1)]" string_utils]
  by (simp add: new_default_def store_of_def identity_override_def segment_override_def
        refers_flag)

text \<open>
  Claim C7, as the code has it. Every save of a feature state that succeeds, the creation
  of a row and the update of a stored row alike, ends with one call of the webhook
  trigger on the saved instance, after the row is written.
\<close>

theorem save_notifies_webhook:
  assumes "save u st s = Inr (st', s')"
  shows "webhook_calls st' = webhook_calls st @ [s'] \<and> pk s' \<noteq> None
         \<and> s' \<in> set (feature_states st') \<and> (pk s \<noteq> None \<longrightarrow> s' = s)"
proof -
  from assms obtain st1 where m: "model_save st s = Inr (st1, s')"
    and st': "st' = st1\<lparr>feature_state_values :=
                          get_or_create (feature_state_values st1) (pk s')
                            (get_feature_state_defaults u s'),
                     webhook_calls := webhook_calls st1 @ [s']\<rparr>"
    by (auto simp: save_def Let_def split: if_splits sum.splits prod.splits)
  show ?thesis using model_save_result [OF m] by (simp add: st')
qed

theorem save_notifies_webhook_witness:
  "\<exists>st'. save string_utils (store_of [env_default]) (new_default 2)
              = Inr (st', (new_default 2)\<lparr>pk := Some 2\<rparr>)
     \<and> webhook_calls st' = [(new_default 2)\<lparr>pk := Some 2\<rparr>]"
proof -
  obtain st' where s: "save string_utils (store_of [env_default]) (new_default 2)
              = Inr (st', (new_default 2)\<lparr>pk := Some 2\<rparr>)"
    by (simp add: save_def model_save_def store_of_def env_default_def new_default_def Let_def
        unique_for_feature_segment_def unique_for_identity_def unique_for_environment_def
        same_scope_def same_column_def next_pk_def refers_to_def flag_def list_ex_iff)
  from save_notifies_webhook [OF s] show ?thesis using s by (simp add: store_of_def)
qed

text \<open>
  The stored default of the environment is saved again with its flag switched on: the row
  exists already, the save is an update, and the webhook trigger is called with it.
\<close>

theorem save_update_notifies_webhook:
  "list_ex (\<lambda>r. pk r = pk (env_default\<lparr>enabled := True\<rparr>))
     (feature_states (store_of [env_default]))
   \<and> map_sum id (webhook_calls \<circ> fst)
        (save string_utils (store_of [env_default]) (env_default\<lparr>enabled := True\<rparr>))
      = Inr [env_default\<lparr>enabled := True\<rparr>]"
  by (simp add: save_def model_save_def store_of_def env_default_def Let_def
        unique_for_feature_segment_def unique_for_identity_def unique_for_environment_def)

section \<open>The defaults of a feature state value\<close>

lemma falsy_cases:
  "(\<not> truthy v \<and> v \<noteq> PyBool False) = (v = PyNone \<or> v = PyInt 0 \<or> v = PyStr [])"
  by (cases v) auto

text \<open>
  Claim C6, as the code has it. \<^verbatim>\<open>_get_feature_state_defaults\<close> returns \<^verbatim>\<open>None\<close>
  exactly when the initial value of the feature is falsy and is not the boolean
  \<^verbatim>\<open>False\<close>: when it is \<^verbatim>\<open>None\<close>, the integer 0 or the empty string. For the boolean
  \<^verbatim>\<open>False\<close>, as for every truthy value, it returns a typed seed, whose type tag is the one
  \<^verbatim>\<open>get_value_type\<close> gives and whose key is the slot of that tag.
\<close>

theorem get_feature_state_defaults_absent:
  "((get_feature_state_defaults u s = None)
      = (initial_value (feature s) = PyNone \<or> initial_value (feature s) = PyInt 0
         \<or> initial_value (feature s) = PyStr []))
   \<and> (initial_value (feature s) = PyBool False \<longrightarrow>
        (\<exists>d. get_feature_state_defaults u s = Some d
             \<and> seed_type d = get_value_type u (PyBool False)
             \<and> seed_key d = get_feature_state_key_name (seed_type d)))"
proof -
  have "(get_feature_state_defaults u s = None)
          = (\<not> truthy (initial_value (feature s)) \<and> initial_value (feature s) \<noteq> PyBool False)"
    by (simp add: get_feature_state_defaults_def Let_def)
  then show ?thesis
    by (auto simp: falsy_cases get_feature_state_defaults_def Let_def)
qed

theorem get_feature_state_defaults_absent_witness:
  "get_feature_state_defaults string_utils env_default = None
   \<and> (\<exists>d. get_feature_state_defaults string_utils
             (env_default\<lparr>feature := flag\<lparr>initial_value := PyBool False\<rparr>\<rparr>) = Some d
           \<and> seed_type d = STRING)"
  using get_feature_state_defaults_absent [of string_utils env_default]
    get_feature_state_defaults_absent
      [of string_utils "env_default\<lparr>feature := flag\<lparr>initial_value := PyBool False\<rparr>\<rparr>"]
  by (simp add: env_default_def flag_def string_utils_def get_feature_state_defaults_def)

text \<open>
  The integer 0 and the empty string are values that are set, and both are treated as
  absent.
\<close>

theorem defaults_absent_for_zero_and_empty:
  "get_feature_state_defaults string_utils
     (env_default\<lparr>feature := flag\<lparr>initial_value := PyInt 0\<rparr>\<rparr>) = None
   \<and> PyInt 0 \<noteq> PyNone
   \<and> get_feature_state_defaults string_utils
       (env_default\<lparr>feature := flag\<lparr>initial_value := PyStr []\<rparr>\<rparr>) = None
   \<and> PyStr [] \<noteq> PyNone"
  by (simp add: get_feature_state_defaults_def env_default_def flag_def)

section \<open>Unique names\<close>





section \<open>The properties sent to the analytics integration\<close>

lemma feature_properties_other:
  "k \<notin> set (map (\<lambda>x. name (feature x)) ys) \<Longrightarrow> feature_properties table ys props k = props k"
  by (induction ys arbitrary: props) (auto simp: Let_def)

lemma feature_properties_append:
  "feature_properties table (xs @ ys) props
     = feature_properties table ys (feature_properties table xs props)"
  by (induction xs arbitrary: props) (auto simp: Let_def)

lemma feature_properties_dom:
  "dom (feature_properties table ys props) = dom props \<union> set (map (\<lambda>x. name (feature x)) ys)"
  by (induction ys arbitrary: props) (auto simp: Let_def)

text \<open>
  Claim C9. For every list of feature states, \<^verbatim>\<open>generate_user_data\<close> maps the name of the
  feature of each state to the value of the state when the state is enabled and the value
  is truthy, and to the \<^verbatim>\<open>enabled\<close> flag otherwise. The keys of the dictionary are the
  names of the features of the list; where a name occurs more than once, the last state
  that has it decides, which is the state \<open>fs\<close> below.
\<close>

theorem generate_user_data_properties:
  assumes "name (feature fs) \<notin> set (map (\<lambda>x. name (feature x)) ys)"
  shows "(enabled fs \<and> truthy (get_feature_state_value table fs) \<longrightarrow>
            properties (generate_user_data w table uid (xs @ fs # ys)) (name (feature fs))
              = Some (get_feature_state_value table fs))
       \<and> (\<not> (enabled fs \<and> truthy (get_feature_state_value table fs)) \<longrightarrow>
            properties (generate_user_data w table uid (xs @ fs # ys)) (name (feature fs))
              = Some (PyBool (enabled fs)))
       \<and> dom (properties (generate_user_data w table uid (xs @ fs # ys)))
           = set (map (\<lambda>x. name (feature x)) (xs @ fs # ys))"
  using assms
  by (simp add: generate_user_data_def feature_properties_append feature_properties_other
        feature_properties_dom Let_def)

theorem generate_user_data_properties_witness:
  "properties (generate_user_data heap_example value_rows ''user''
       [segment_override 2 (seg 1 1 1)]) ''Flag'' = Some (PyInt 42)
   \<and> properties (generate_user_data heap_example value_rows ''user'' [env_default]) ''Flag''
       = Some (PyBool False)
   \<and> properties (generate_user_data heap_example value_rows ''user''
       [identity_override 3 7]) ''Flag'' = Some (PyBool True)"
  using generate_user_data_properties
      [of "segment_override 2 (seg 1 1 1)" "[]" value_rows heap_example "''user''" "[]"]
    generate_user_data_properties [of env_default "[]" value_rows heap_example "''user''" "[]"]
    generate_user_data_properties
      [of "identity_override 3 7" "[]" value_rows heap_example "''user''" "[]"]
  by (simp add: segment_override_def env_default_def identity_override_def flag_def
        get_feature_state_value_def value_rows_def)

end
